theory Spec2Isabelle
  imports Complex_Main "HOL-Library.Word"
begin

section \<open>The Groq adapter of agno: a shallow embedding\<close>

text \<open>
  The definitions below follow \<^verbatim>\<open>libs/agno/agno/models/groq/groq.py\<close>, method by
  method. Python exceptions are values of the type \<open>error\<close>; a method that may raise
  returns \<open>error + 'a\<close>, with \<open>Inl\<close> for the exception. A method that assigns to
  its arguments or to the adapter returns them as it leaves them. Calls of the logger
  are left out: they change nothing that the methods read.
\<close>

text \<open>
  \<^verbatim>\<open>e.response\<close> of a validation or status error of the provider's client library:
  the HTTP status code and the raw body.
\<close>

record http_response =
  response_status_code :: int
  response_text :: string

text \<open>
  Modelled from the spec: the class \<^verbatim>\<open>ModelProviderError\<close> of \<^verbatim>\<open>agno.exceptions\<close>,
  which the repository's sources here do not include. It carries the message, an
  optional HTTP status code (\<open>None\<close> when the raise site passes none), the model name
  and the model id.
\<close>

record model_provider_error =
  message :: string
  status_code :: "int option"
  model_name :: "string option"
  model_id :: "string option"

text \<open>
  The exceptions that the modelled methods raise or catch. The three provider exceptions
  carry \<^verbatim>\<open>e.message\<close>; \<open>OtherException\<close> is any further subclass of
  \<^verbatim>\<open>Exception\<close>, with its \<^verbatim>\<open>str(e)\<close>.
\<close>

datatype error =
    IndexError
  | ValueError string
  | FileNotFoundError string
  | APIResponseValidationError http_response string
  | APIStatusError http_response string
  | APIError string
  | OtherException string
  | ModelProviderError model_provider_error

text \<open>\<^verbatim>\<open>str(e)\<close>.\<close>

fun error_str :: "error \<Rightarrow> string" where
  "error_str IndexError = ''list index out of range''"
| "error_str (ValueError s) = s"
| "error_str (FileNotFoundError s) = s"
| "error_str (APIResponseValidationError r m) = m"
| "error_str (APIStatusError r m) = m"
| "error_str (APIError m) = m"
| "error_str (OtherException s) = s"
| "error_str (ModelProviderError e) = message e"

text \<open>\<^verbatim>\<open>isinstance(e, FileNotFoundError)\<close>.\<close>

fun is_file_not_found :: "error \<Rightarrow> bool" where
  "is_file_not_found (FileNotFoundError s) = True"
| "is_file_not_found e = False"

subsection \<open>Python truthiness of optional strings\<close>

text \<open>
  \<^verbatim>\<open>if s:\<close> on a value of type \<^verbatim>\<open>Optional[str]\<close> holds when \<^verbatim>\<open>s\<close> is
  neither \<^verbatim>\<open>None\<close> nor the empty string; \<^verbatim>\<open>s or ""\<close> is \<^verbatim>\<open>s\<close> when it is
  truthy and the empty string otherwise.
\<close>

definition truthy :: "string option \<Rightarrow> bool" where
  "truthy s = (case s of None \<Rightarrow> False | Some t \<Rightarrow> t \<noteq> [])"

definition or_default :: "string option \<Rightarrow> string \<Rightarrow> string" where
  "or_default s d = (case s of None \<Rightarrow> d | Some t \<Rightarrow> (if t \<noteq> [] then t else d))"

definition or_empty :: "string option \<Rightarrow> string" where
  "or_empty s = or_default s []"

subsection \<open>Streamed tool-call fragments\<close>

text \<open>
  \<^verbatim>\<open>ChoiceDeltaToolCall\<close> has an integer \<^verbatim>\<open>index\<close>, optional \<^verbatim>\<open>id\<close> and
  \<^verbatim>\<open>type\<close>, and an optional \<^verbatim>\<open>function\<close> object with optional \<^verbatim>\<open>name\<close> and
  \<^verbatim>\<open>arguments\<close>.
\<close>

record delta_function =
  fn_name :: "string option"
  fn_arguments :: "string option"

record delta_tool_call =
  tc_index :: int
  tc_id :: "string option"
  tc_type :: "string option"
  tc_function :: "delta_function option"

text \<open>
  An entry of the list under construction is a Python dict. It is either the empty dict
  \<^verbatim>\<open>{}\<close> (\<open>None\<close> below) or holds exactly the keys \<^verbatim>\<open>"id"\<close>, \<^verbatim>\<open>"type"\<close> and
  \<^verbatim>\<open>"function"\<close>, the last one a dict with the keys \<^verbatim>\<open>"name"\<close> and
  \<^verbatim>\<open>"arguments"\<close> created together with the entry and owned by it.
\<close>

record tool_call_entry =
  entry_id :: "string option"
  entry_type :: "string option"
  entry_name :: string
  entry_arguments :: string

type_synonym tool_call_dict = "tool_call_entry option"

text \<open>
  Dicts are objects: the list \<^verbatim>\<open>tool_calls\<close> holds references, and
  \<^verbatim>\<open>[{}] * n\<close> is a list of \<open>n\<close> references to one new dict. The store maps a
  reference to the dict it denotes; \<open>next_ref\<close> is the first reference not yet in use.
\<close>

record dict_store =
  next_ref :: nat
  dicts :: "nat \<Rightarrow> tool_call_dict"

definition empty_store :: dict_store where
  "empty_store = \<lparr>next_ref = 0, dicts = (\<lambda>_. None)\<rparr>"

text \<open>\<^verbatim>\<open>tool_calls.extend([{}] * k)\<close>: one new empty dict, referenced \<open>k\<close> times.\<close>

definition extend_placeholders :: "nat \<Rightarrow> nat list \<times> dict_store \<Rightarrow> nat list \<times> dict_store" where
  "extend_placeholders k st =
     (case st of (refs, store) \<Rightarrow>
        (refs @ replicate k (next_ref store),
         \<lparr>next_ref = Suc (next_ref store), dicts = (dicts store)(next_ref store := None)\<rparr>))"

text \<open>
  \<^verbatim>\<open>tool_calls[_index]\<close>: the position read in a list of length \<open>n\<close>. A negative
  index counts from the end; outside the list Python raises \<^verbatim>\<open>IndexError\<close>.
\<close>

definition list_position :: "nat \<Rightarrow> int \<Rightarrow> error + nat" where
  "list_position n i =
     (if 0 \<le> i \<and> i < int n then Inr (nat i)
      else if i < 0 \<and> - int n \<le> i then Inr (nat (int n + i))
      else Inl IndexError)"

text \<open>
  \<^verbatim>\<open>_tool_call.function.name if _tool_call.function else None\<close>, and the same
  for the arguments.
\<close>

definition function_name_of :: "delta_tool_call \<Rightarrow> string option" where
  "function_name_of tc = (case tc_function tc of None \<Rightarrow> None | Some f \<Rightarrow> fn_name f)"

definition function_arguments_of :: "delta_tool_call \<Rightarrow> string option" where
  "function_arguments_of tc = (case tc_function tc of None \<Rightarrow> None | Some f \<Rightarrow> fn_arguments f)"

text \<open>\<^verbatim>\<open>if s: existing += s\<close>.\<close>

definition append_if_truthy :: "string \<Rightarrow> string option \<Rightarrow> string" where
  "append_if_truthy existing s =
     (case s of None \<Rightarrow> existing | Some t \<Rightarrow> (if t \<noteq> [] then existing @ t else existing))"

text \<open>The two branches of the loop body, on the dict that \<^verbatim>\<open>tool_call_entry\<close> refers to.\<close>

definition merge_fragment :: "delta_tool_call \<Rightarrow> tool_call_dict \<Rightarrow> tool_call_dict" where
  "merge_fragment tc d =
     (case d of
        None \<Rightarrow>
          Some \<lparr>entry_id = tc_id tc, entry_type = tc_type tc,
                entry_name = or_empty (function_name_of tc),
                entry_arguments = or_empty (function_arguments_of tc)\<rparr>
      | Some e \<Rightarrow>
          Some \<lparr>entry_id = (if truthy (tc_id tc) then tc_id tc else entry_id e),
                entry_type = (if truthy (tc_type tc) then tc_type tc else entry_type e),
                entry_name = append_if_truthy (entry_name e) (function_name_of tc),
                entry_arguments = append_if_truthy (entry_arguments e) (function_arguments_of tc)\<rparr>)"

text \<open>One iteration of the \<^verbatim>\<open>for\<close> loop of \<^verbatim>\<open>parse_tool_calls\<close>.\<close>

definition parse_step ::
  "delta_tool_call \<Rightarrow> nat list \<times> dict_store \<Rightarrow> error + nat list \<times> dict_store" where
  "parse_step tc st =
     (let st1 = (if int (length (fst st)) \<le> tc_index tc
                 then extend_placeholders (nat (tc_index tc - int (length (fst st)) + 1)) st
                 else st)
      in case list_position (length (fst st1)) (tc_index tc) of
           Inl e \<Rightarrow> Inl e
         | Inr p \<Rightarrow>
             (let r = fst st1 ! p
              in Inr (fst st1,
                      (snd st1)\<lparr>dicts := (dicts (snd st1))(r := merge_fragment tc (dicts (snd st1) r))\<rparr>)))"

fun parse_loop ::
  "delta_tool_call list \<Rightarrow> nat list \<times> dict_store \<Rightarrow> error + nat list \<times> dict_store" where
  "parse_loop [] st = Inr st"
| "parse_loop (tc # tcs) st =
     (case parse_step tc st of Inl e \<Rightarrow> Inl e | Inr st' \<Rightarrow> parse_loop tcs st')"

text \<open>
  \<^verbatim>\<open>parse_tool_calls\<close> with the references kept, and as its caller reads it: the list of
  the dicts that the references denote when the method returns.
\<close>

definition parse_tool_calls_refs :: "delta_tool_call list \<Rightarrow> error + nat list \<times> dict_store" where
  "parse_tool_calls_refs tool_calls_data = parse_loop tool_calls_data ([], empty_store)"

definition parse_tool_calls :: "delta_tool_call list \<Rightarrow> error + tool_call_dict list" where
  "parse_tool_calls tool_calls_data =
     (case parse_tool_calls_refs tool_calls_data of
        Inl e \<Rightarrow> Inl e
      | Inr (refs, store) \<Rightarrow> Inr (map (dicts store) refs))"


subsection \<open>Messages, media and the adapter's state\<close>

type_synonym bytes = "8 word list"

text \<open>
  Modelled from the spec: the class \<^verbatim>\<open>Audio\<close> of \<^verbatim>\<open>agno.media\<close>, read by
  \<^verbatim>\<open>_format_audio_for_message\<close> through \<^verbatim>\<open>content\<close> (any value: bytes or something
  else, here a string), \<^verbatim>\<open>url\<close>, \<^verbatim>\<open>audio_url_content\<close> (the bytes the URL
  resolves to, when it does), \<^verbatim>\<open>filepath\<close> and \<^verbatim>\<open>format\<close>.
\<close>

datatype audio_value = ContentBytes bytes | ContentOther string

record audio =
  audio_content :: "audio_value option"
  audio_url :: "string option"
  audio_url_content :: "bytes option"
  audio_filepath :: "string option"
  audio_format :: "string option"

text \<open>
  Modelled from the spec: the class \<^verbatim>\<open>Message\<close> of \<^verbatim>\<open>agno.models.message\<close>. Its
  content is a string or a list of parts; images and videos are values of a type \<open>'m\<close>
  that the adapter only hands on.
\<close>

datatype 'm content_part = TextPart string | MediaPart 'm

datatype 'm content = Text string | Parts "'m content_part list"

record 'm message =
  role :: string
  content :: "'m content option"
  name :: "string option"
  tool_call_id :: "string option"
  tool_calls :: "tool_call_entry list option"
  images :: "'m list option"
  audio :: "audio list option"
  videos :: "'m list option"

text \<open>
  The mapping that \<^verbatim>\<open>format_message\<close> returns has the keys \<^verbatim>\<open>role\<close>,
  \<^verbatim>\<open>content\<close>, \<^verbatim>\<open>name\<close>, \<^verbatim>\<open>tool_call_id\<close> and \<^verbatim>\<open>tool_calls\<close>, each one
  present exactly when its value is not \<^verbatim>\<open>None\<close>: a field below is \<open>None\<close> when
  the key is absent.
\<close>

record 'm message_dict =
  md_role :: "string option"
  md_content :: "'m content option"
  md_name :: "string option"
  md_tool_call_id :: "string option"
  md_tool_calls :: "tool_call_entry list option"

text \<open>Values of client and request parameters; \<open>Object\<close> is a reference to an object.\<close>

datatype param = StrParam string | IntParam int | Object nat

text \<open>
  A client object of the provider's library: its identity, whether it is the
  asynchronous one, and the keyword arguments it was constructed with.
\<close>

record groq_client =
  client_object :: nat
  client_is_async :: bool
  client_kwargs :: "string \<rightharpoonup> param"

text \<open>
  The fields of the dataclass \<^verbatim>\<open>Groq\<close> that the modelled methods read or write. The
  property \<^verbatim>\<open>request_kwargs\<close> is a function of configuration fields that no modelled
  method writes; its value is carried as one field.
\<close>

record groq =
  groq_id :: string
  groq_name :: string
  response_format :: "(string \<rightharpoonup> string) option"
  request_kwargs :: "string \<rightharpoonup> param"
  api_key :: "string option"
  base_url :: "string option"
  timeout :: "int option"
  max_retries :: "int option"
  default_headers :: "param option"
  default_query :: "param option"
  http_client :: "nat option"
  client_params :: "(string \<rightharpoonup> param) option"
  client :: "groq_client option"
  async_client :: "groq_client option"

text \<open>The requests that reach the provider.\<close>

datatype audio_data = RawBytes bytes | SingleAudio audio | AudioList "audio list"

record transcription_request =
  file_name :: string
  file_payload :: audio_data
  transcription_model :: string
  param_language :: "string option"
  param_prompt :: "string option"
  param_response_format :: "string option"
  param_temperature :: "real option"

record 'm chat_request =
  chat_client :: groq_client
  chat_model :: string
  chat_messages :: "'m message_dict list"
  chat_stream :: bool
  chat_kwargs :: "string \<rightharpoonup> param"

datatype 'm request = ChatRequest "'m chat_request" | TranscriptionRequest transcription_request

text \<open>
  What lies outside the adapter and changes as it runs: the next unused object identity,
  and the requests sent to the provider so far, the latest first.
\<close>

record 'm world =
  next_object :: nat
  network_calls :: "'m request list"

text \<open>A stream of chunks: the chunks it yields and the exception that ends it, if any.\<close>

datatype 'c stream = Stream "'c list" "error option"

datatype fs_node = File bytes | Directory

text \<open>
  The collaborators of the adapter, which the sources here do not include: the process
  environment, the file system, \<^verbatim>\<open>images_to_message\<close> of \<^verbatim>\<open>agno.utils.openai\<close>,
  and the provider's endpoints, each a function from the request to its outcome.
\<close>

record ('m, 'r, 'c) collaborators =
  getenv :: "string \<rightharpoonup> string"
  path_node :: "string \<rightharpoonup> fs_node"
  images_to_message :: "'m list \<Rightarrow> 'm content_part list"
  chat_create :: "'m chat_request \<Rightarrow> error + 'r"
  chat_create_stream :: "'m chat_request \<Rightarrow> error + 'c stream"
  transcriptions_create :: "transcription_request \<Rightarrow> error + string"

subsection \<open>Clients\<close>

text \<open>A dict entry is kept only when its value is not \<^verbatim>\<open>None\<close>.\<close>

definition put_param :: "string \<Rightarrow> param option \<Rightarrow> (string \<rightharpoonup> param) \<Rightarrow> (string \<rightharpoonup> param)" where
  "put_param k v m = (case v of None \<Rightarrow> m | Some x \<Rightarrow> m(k \<mapsto> x))"

text \<open>
  \<^verbatim>\<open>_get_client_params\<close>. Updating with \<^verbatim>\<open>self.client_params\<close> under
  \<^verbatim>\<open>if self.client_params\<close> is the update alone, an empty dict adding nothing.
\<close>

definition get_client_params ::
  "('m, 'r, 'c) collaborators \<Rightarrow> groq \<Rightarrow> (string \<rightharpoonup> param) \<times> groq" where
  "get_client_params c self =
     (let self1 = (if \<not> truthy (api_key self)
                   then self\<lparr>api_key := getenv c ''GROQ_API_KEY''\<rparr> else self);
          base_params =
            put_param ''api_key'' (map_option StrParam (api_key self1))
             (put_param ''base_url'' (map_option StrParam (base_url self1))
               (put_param ''timeout'' (map_option IntParam (timeout self1))
                 (put_param ''max_retries'' (map_option IntParam (max_retries self1))
                   (put_param ''default_headers'' (default_headers self1)
                     (put_param ''default_query'' (default_query self1) Map.empty)))));
          client_params1 = (case client_params self1 of
                              None \<Rightarrow> base_params
                            | Some extra \<Rightarrow> base_params ++ extra)
      in (client_params1, self1))"

text \<open>\<^verbatim>\<open>get_client\<close>: the stored client, or a new one that is stored.\<close>

definition get_client ::
  "('m, 'r, 'c) collaborators \<Rightarrow> groq \<times> 'm world \<Rightarrow> groq_client \<times> groq \<times> 'm world" where
  "get_client c st =
     (case st of (self, w) \<Rightarrow>
        (case client self of
           Some cl \<Rightarrow> (cl, self, w)
         | None \<Rightarrow>
             (let (params, self1) = get_client_params c self;
                  params1 = (case http_client self1 of
                               None \<Rightarrow> params
                             | Some h \<Rightarrow> params(''http_client'' \<mapsto> Object h));
                  new_client = \<lparr>client_object = next_object w, client_is_async = False,
                                client_kwargs = params1\<rparr>
              in (new_client, self1\<lparr>client := Some new_client\<rparr>,
                  w\<lparr>next_object := Suc (next_object w)\<rparr>))))"

text \<open>
  \<^verbatim>\<open>get_async_client\<close>: the stored client, or a new one, built on the configured
  HTTP client or on a new \<^verbatim>\<open>httpx.AsyncClient\<close>, and returned.
\<close>

definition get_async_client ::
  "('m, 'r, 'c) collaborators \<Rightarrow> groq \<times> 'm world \<Rightarrow> groq_client \<times> groq \<times> 'm world" where
  "get_async_client c st =
     (case st of (self, w) \<Rightarrow>
        (case async_client self of
           Some cl \<Rightarrow> (cl, self, w)
         | None \<Rightarrow>
             (let (params, self1) = get_client_params c self;
                  (params1, w1) = (case http_client self1 of
                               Some h \<Rightarrow> (params(''http_client'' \<mapsto> Object h), w)
                             | None \<Rightarrow> (params(''http_client'' \<mapsto> Object (next_object w)),
                                        w\<lparr>next_object := Suc (next_object w)\<rparr>));
                  new_client = \<lparr>client_object = next_object w1, client_is_async = True,
                                client_kwargs = params1\<rparr>
              in (new_client, self1, w1\<lparr>next_object := Suc (next_object w1)\<rparr>))))"


subsection \<open>Audio transcription\<close>

text \<open>
  \<^verbatim>\<open>_format_audio_for_message\<close>: embedded bytes (a truthy \<^verbatim>\<open>bytes\<close> value), else
  the content of the URL, else the bytes of the file at \<^verbatim>\<open>filepath\<close> when that path
  exists and is a file; \<^verbatim>\<open>None\<close> in every other case.
\<close>

definition format_audio_for_message :: "('m, 'r, 'c) collaborators \<Rightarrow> audio \<Rightarrow> bytes option" where
  "format_audio_for_message c a =
     (case (case audio_content a of
              Some (ContentBytes b) \<Rightarrow> (if b \<noteq> [] then Some b else None)
            | _ \<Rightarrow> None) of
        Some b \<Rightarrow> Some b
      | None \<Rightarrow>
          (if audio_url a \<noteq> None \<and> audio_url_content a \<noteq> None then audio_url_content a
           else (case audio_filepath a of
                   Some audio_path \<Rightarrow>
                     (case path_node c audio_path of
                        Some (File file_content) \<Rightarrow> Some file_content
                      | _ \<Rightarrow> None)
                 | None \<Rightarrow> None)))"

text \<open>
  The first part of \<^verbatim>\<open>transcribe_audio\<close>: the payload and the file format, or the
  \<^verbatim>\<open>ValueError\<close>. Anything that is neither a non-empty list nor an \<^verbatim>\<open>Audio\<close> is
  taken as the payload.
\<close>

definition process_audio ::
  "('m, 'r, 'c) collaborators \<Rightarrow> audio \<Rightarrow> string option \<Rightarrow> error + audio_data \<times> string option" where
  "process_audio c audio_obj file_format =
     (case format_audio_for_message c audio_obj of
        None \<Rightarrow> Inl (ValueError ''Failed to process audio data'')
      | Some processed_audio \<Rightarrow>
          Inr (RawBytes processed_audio,
               if \<not> truthy file_format \<and> truthy (audio_format audio_obj)
               then audio_format audio_obj else file_format))"

definition resolve_audio ::
  "('m, 'r, 'c) collaborators \<Rightarrow> audio_data \<Rightarrow> string option \<Rightarrow> error + audio_data \<times> string option" where
  "resolve_audio c data file_format =
     (case data of
        AudioList (audio_obj # rest) \<Rightarrow> process_audio c audio_obj file_format
      | SingleAudio audio_obj \<Rightarrow> process_audio c audio_obj file_format
      | _ \<Rightarrow> Inr (data, file_format))"

text \<open>
  \<^verbatim>\<open>transcribe_audio\<close>: the request is built, the client obtained, and the request
  sent. An exception leaves the method where it is raised.
\<close>

definition transcribe_audio ::
  "('m, 'r, 'c) collaborators \<Rightarrow> groq \<times> 'm world \<Rightarrow> audio_data \<Rightarrow> string option \<Rightarrow>
   string option \<Rightarrow> string option \<Rightarrow> string option \<Rightarrow> real option \<Rightarrow> string \<Rightarrow>
   (error + string) \<times> groq \<times> 'm world" where
  "transcribe_audio c st data file_format language prompt resp_format temperature model =
     (case resolve_audio c data file_format of
        Inl e \<Rightarrow> (Inl e, st)
      | Inr (audio_bytes, file_format1) \<Rightarrow>
          (let req = \<lparr>file_name = ''audio.'' @ or_default file_format1 ''mp3'',
                      file_payload = audio_bytes,
                      transcription_model = model,
                      param_language = (if truthy language then language else None),
                      param_prompt = (if truthy prompt then prompt else None),
                      param_response_format = (if truthy resp_format then resp_format else None),
                      param_temperature = temperature\<rparr>;
               (cl, self1, w1) = get_client c st
           in (transcriptions_create c req, self1,
               w1\<lparr>network_calls := TranscriptionRequest req # network_calls w1\<rparr>)))"

subsection \<open>Formatting a message\<close>

definition json_directive :: string where
  "json_directive = [CHR 0x0A, CHR 0x0A] @ ''Your output should be in JSON format.''"

definition json_requested :: "groq \<Rightarrow> bool" where
  "json_requested self =
     (case response_format self of None \<Rightarrow> False | Some rf \<Rightarrow> rf ''type'' = Some ''json_object'')"

text \<open>
  \<^verbatim>\<open>format_message\<close>, statement by statement. First the mapping is built from the
  message, keeping the fields that are not \<^verbatim>\<open>None\<close>.
\<close>

definition message_to_dict :: "'m message \<Rightarrow> 'm message_dict" where
  "message_to_dict msg =
     \<lparr>md_role = Some (role msg), md_content = content msg, md_name = name msg,
      md_tool_call_id = tool_call_id msg, md_tool_calls = tool_calls msg\<rparr>"

text \<open>
  Then, for a system message with string content under a JSON response format,
  \<^verbatim>\<open>message.content += "\n\nYour output should be in JSON format."\<close>: the statement
  assigns to the attribute of the message.
\<close>

definition add_json_directive :: "groq \<Rightarrow> 'm message \<Rightarrow> 'm message" where
  "add_json_directive self msg =
     (case content msg of
        Some (Text t) \<Rightarrow>
          (if role msg = ''system'' \<and> json_requested self
           then msg\<lparr>content := Some (Text (t @ json_directive))\<rparr> else msg)
      | _ \<Rightarrow> msg)"

text \<open>With images and string content, the mapping's content becomes a list of parts.\<close>

definition add_images ::
  "('m, 'r, 'c) collaborators \<Rightarrow> 'm message \<Rightarrow> 'm message_dict \<Rightarrow> 'm message_dict" where
  "add_images c msg message_dict =
     (case images msg of
        Some (img # imgs) \<Rightarrow>
          (case content msg of
             Some (Text t) \<Rightarrow>
               message_dict\<lparr>md_content :=
                 Some (Parts (TextPart t # images_to_message c (img # imgs)))\<rparr>
           | _ \<Rightarrow> message_dict)
      | _ \<Rightarrow> message_dict)"

text \<open>
  With audio, the mapping's content becomes the transcription; an exception of the
  transcription is caught and the mapping stays as it is.
\<close>

definition add_transcription ::
  "('m, 'r, 'c) collaborators \<Rightarrow> groq \<times> 'm world \<Rightarrow> 'm message \<Rightarrow> 'm message_dict \<Rightarrow>
   'm message_dict \<times> groq \<times> 'm world" where
  "add_transcription c st msg message_dict =
     (case audio msg of
        Some (a # rest) \<Rightarrow>
          (case transcribe_audio c st (AudioList (a # rest)) None None None (Some ''text'') None
                  ''whisper-large-v3-turbo'' of
             (Inr transcription_result, st1) \<Rightarrow>
               (message_dict\<lparr>md_content :=
                  Some (Text (''Audio Transcription: '' @ transcription_result))\<rparr>, st1)
           | (Inl e, st1) \<Rightarrow> (message_dict, st1))
      | _ \<Rightarrow> (message_dict, st))"

text \<open>
  The result is the mapping, the message as the call leaves it, and the adapter and the
  world as the transcription leaves them.
\<close>

definition format_message ::
  "('m, 'r, 'c) collaborators \<Rightarrow> groq \<times> 'm world \<Rightarrow> 'm message \<Rightarrow>
   'm message_dict \<times> 'm message \<times> groq \<times> 'm world" where
  "format_message c st msg =
     (let message_dict = message_to_dict msg;
          msg1 = add_json_directive (fst st) msg;
          message_dict1 = add_images c msg1 message_dict
      in case add_transcription c st msg1 message_dict1 of
           (message_dict2, st1) \<Rightarrow> (message_dict2, msg1, st1))"

text \<open>\<^verbatim>\<open>[self.format_message(m) for m in messages]\<close>, from left to right.\<close>

fun format_messages ::
  "('m, 'r, 'c) collaborators \<Rightarrow> groq \<times> 'm world \<Rightarrow> 'm message list \<Rightarrow>
   'm message_dict list \<times> 'm message list \<times> groq \<times> 'm world" where
  "format_messages c st [] = ([], [], st)"
| "format_messages c st (m # ms) =
     (case format_message c st m of
        (d, m1, st1) \<Rightarrow>
          (case format_messages c st1 ms of
             (ds, ms1, st2) \<Rightarrow> (d # ds, m1 # ms1, st2)))"

subsection \<open>Invoking the provider\<close>

text \<open>
  The three \<^verbatim>\<open>except\<close> clauses shared by the four invocation methods, in their order:
  validation and status errors, other API errors, any other exception.
\<close>

definition provider_error :: "groq \<Rightarrow> error \<Rightarrow> error" where
  "provider_error self e =
     (case e of
        APIResponseValidationError resp m \<Rightarrow>
          ModelProviderError \<lparr>message = response_text resp,
            status_code = Some (response_status_code resp),
            model_name = Some (groq_name self), model_id = Some (groq_id self)\<rparr>
      | APIStatusError resp m \<Rightarrow>
          ModelProviderError \<lparr>message = response_text resp,
            status_code = Some (response_status_code resp),
            model_name = Some (groq_name self), model_id = Some (groq_id self)\<rparr>
      | APIError m \<Rightarrow>
          ModelProviderError \<lparr>message = m, status_code = None,
            model_name = Some (groq_name self), model_id = Some (groq_id self)\<rparr>
      | _ \<Rightarrow>
          ModelProviderError \<lparr>message = error_str e, status_code = None,
            model_name = Some (groq_name self), model_id = Some (groq_id self)\<rparr>)"

text \<open>
  The body of the \<^verbatim>\<open>try\<close>, up to the call: the client, the formatted messages and
  the request, which is recorded as sent.
\<close>

definition prepare_request ::
  "('m, 'r, 'c) collaborators \<Rightarrow> bool \<Rightarrow> bool \<Rightarrow> groq \<times> 'm world \<Rightarrow> 'm message list \<Rightarrow>
   'm chat_request \<times> 'm message list \<times> groq \<times> 'm world" where
  "prepare_request c is_async streaming st messages =
     (case (if is_async then get_async_client c st else get_client c st) of
        (cl, st1) \<Rightarrow>
          (case format_messages c st1 messages of
             (ds, messages1, self2, w2) \<Rightarrow>
               (let req = \<lparr>chat_client = cl, chat_model = groq_id (fst st1), chat_messages = ds,
                           chat_stream = streaming, chat_kwargs = request_kwargs self2\<rparr>
                in (req, messages1, self2,
                    w2\<lparr>network_calls := ChatRequest req # network_calls w2\<rparr>))))"

definition invoke ::
  "('m, 'r, 'c) collaborators \<Rightarrow> groq \<times> 'm world \<Rightarrow> 'm message list \<Rightarrow>
   (error + 'r) \<times> 'm message list \<times> groq \<times> 'm world" where
  "invoke c st messages =
     (case prepare_request c False False st messages of
        (req, messages1, self2, w2) \<Rightarrow>
          (case chat_create c req of
             Inl e \<Rightarrow> (Inl (provider_error self2 e), messages1, self2, w2)
           | Inr response \<Rightarrow> (Inr response, messages1, self2, w2)))"

definition ainvoke ::
  "('m, 'r, 'c) collaborators \<Rightarrow> groq \<times> 'm world \<Rightarrow> 'm message list \<Rightarrow>
   (error + 'r) \<times> 'm message list \<times> groq \<times> 'm world" where
  "ainvoke c st messages =
     (case prepare_request c True False st messages of
        (req, messages1, self2, w2) \<Rightarrow>
          (case chat_create c req of
             Inl e \<Rightarrow> (Inl (provider_error self2 e), messages1, self2, w2)
           | Inr response \<Rightarrow> (Inr response, messages1, self2, w2)))"

text \<open>
  \<^verbatim>\<open>invoke_stream\<close> returns the stream that the call returns; what the stream raises
  while it is read is raised outside the \<^verbatim>\<open>try\<close>.
\<close>

definition invoke_stream ::
  "('m, 'r, 'c) collaborators \<Rightarrow> groq \<times> 'm world \<Rightarrow> 'm message list \<Rightarrow>
   (error + 'c stream) \<times> 'm message list \<times> groq \<times> 'm world" where
  "invoke_stream c st messages =
     (case prepare_request c False True st messages of
        (req, messages1, self2, w2) \<Rightarrow>
          (case chat_create_stream c req of
             Inl e \<Rightarrow> (Inl (provider_error self2 e), messages1, self2, w2)
           | Inr chunks \<Rightarrow> (Inr chunks, messages1, self2, w2)))"

text \<open>
  \<^verbatim>\<open>ainvoke_stream\<close> is a generator that reads the stream inside the \<^verbatim>\<open>try\<close>: it
  yields the chunks of the stream, and ends with the translated exception when the call
  or the stream raises.
\<close>

definition ainvoke_stream ::
  "('m, 'r, 'c) collaborators \<Rightarrow> groq \<times> 'm world \<Rightarrow> 'm message list \<Rightarrow>
   'c stream \<times> 'm message list \<times> groq \<times> 'm world" where
  "ainvoke_stream c st messages =
     (case prepare_request c True True st messages of
        (req, messages1, self2, w2) \<Rightarrow>
          (case chat_create_stream c req of
             Inl e \<Rightarrow> (Stream [] (Some (provider_error self2 e)), messages1, self2, w2)
           | Inr (Stream chunks failure) \<Rightarrow>
               (Stream chunks (map_option (provider_error self2) failure), messages1, self2, w2)))"

subsection \<open>Parsing a complete response\<close>

text \<open>
  The provider's \<^verbatim>\<open>ChatCompletion\<close>: choices with a message each, and the usage. A
  field that the provider leaves out or sends as null is \<open>None\<close>. Tool calls are
  values of a type \<open>'t\<close> with a method \<^verbatim>\<open>model_dump\<close>.
\<close>

record 't chat_completion_message =
  cm_role :: "string option"
  cm_content :: "string option"
  cm_tool_calls :: "'t list option"

record 't choice =
  choice_message :: "'t chat_completion_message"

record completion_usage =
  prompt_tokens :: "int option"
  completion_tokens :: "int option"
  usage_total_tokens :: "int option"
  completion_time :: "real option"
  prompt_time :: "real option"
  queue_time :: "real option"
  total_time :: "real option"

record 't chat_completion =
  choices :: "'t choice list"
  usage :: "completion_usage option"

record additional_metrics =
  metric_completion_time :: "real option"
  metric_prompt_time :: "real option"
  metric_queue_time :: "real option"
  metric_total_time :: "real option"

record usage_dict =
  input_tokens :: "int option"
  output_tokens :: "int option"
  total_tokens :: "int option"
  additional :: additional_metrics

text \<open>
  Modelled from the spec: the class \<^verbatim>\<open>ModelResponse\<close> of \<^verbatim>\<open>agno.models.response\<close>,
  with role, content, tool calls and usage; a field that the parser does not assign is
  \<open>None\<close>.
\<close>

record 'd model_response =
  response_role :: "string option"
  response_content :: "string option"
  response_tool_calls :: "'d list option"
  response_usage :: "usage_dict option"

text \<open>
  \<^verbatim>\<open>[t.model_dump() for t in tool_calls]\<close>: the first exception ends the
  comprehension, and no list is produced.
\<close>

fun dump_all :: "('t \<Rightarrow> error + 'd) \<Rightarrow> 't list \<Rightarrow> error + 'd list" where
  "dump_all model_dump [] = Inr []"
| "dump_all model_dump (t # ts) =
     (case model_dump t of
        Inl e \<Rightarrow> Inl e
      | Inr d \<Rightarrow> (case dump_all model_dump ts of Inl e \<Rightarrow> Inl e | Inr ds \<Rightarrow> Inr (d # ds)))"

definition parse_provider_response ::
  "('t \<Rightarrow> error + 'd) \<Rightarrow> 't chat_completion \<Rightarrow> error + 'd model_response" where
  "parse_provider_response model_dump response =
     (case choices response of
        [] \<Rightarrow> Inl IndexError
      | first_choice # others \<Rightarrow>
          (let response_message = choice_message first_choice;
               r0 = \<lparr>response_role = None, response_content = None,
                     response_tool_calls = None, response_usage = None\<rparr>;
               r1 = (case cm_role response_message of
                       None \<Rightarrow> r0 | Some v \<Rightarrow> r0\<lparr>response_role := Some v\<rparr>);
               r2 = (case cm_content response_message of
                       None \<Rightarrow> r1 | Some v \<Rightarrow> r1\<lparr>response_content := Some v\<rparr>);
               r3 = (case cm_tool_calls response_message of
                       None \<Rightarrow> r2
                     | Some ts \<Rightarrow>
                         (if length ts > 0
                          then (case dump_all model_dump ts of
                                  Inl e \<Rightarrow> r2
                                | Inr ds \<Rightarrow> r2\<lparr>response_tool_calls := Some ds\<rparr>)
                          else r2));
               r4 = (case usage response of
                       None \<Rightarrow> r3
                     | Some u \<Rightarrow>
                         r3\<lparr>response_usage := Some
                           \<lparr>input_tokens = prompt_tokens u,
                            output_tokens = completion_tokens u,
                            total_tokens = usage_total_tokens u,
                            additional =
                              \<lparr>metric_completion_time = completion_time u,
                               metric_prompt_time = prompt_time u,
                               metric_queue_time = queue_time u,
                               metric_total_time = total_time u\<rparr>\<rparr>\<rparr>)
           in Inr r4))"

subsection \<open>Example values\<close>

text \<open>
  Concrete inputs at which the theorems below are evaluated: collaborators that answer
  every request, an adapter with the defaults of the dataclass, an empty world, and a
  few messages, fragments and responses.
\<close>

definition no_collaborators :: "(unit, unit, unit) collaborators" where
  "no_collaborators =
     \<lparr>getenv = Map.empty, path_node = Map.empty, images_to_message = (\<lambda>_. []),
      chat_create = (\<lambda>_. Inr ()), chat_create_stream = (\<lambda>_. Inr (Stream [] None)),
      transcriptions_create = (\<lambda>_. Inr ''hello'')\<rparr>"

definition default_groq :: groq where
  "default_groq =
     \<lparr>groq_id = ''llama-3.3-70b-versatile'', groq_name = ''Groq'', response_format = None,
      request_kwargs = Map.empty, api_key = None, base_url = None, timeout = None,
      max_retries = None, default_headers = None, default_query = None, http_client = None,
      client_params = None, client = None, async_client = None\<rparr>"

definition new_world :: "unit world" where
  "new_world = \<lparr>next_object = 0, network_calls = []\<rparr>"

text \<open>An \<^verbatim>\<open>Audio\<close> that has a file path and nothing else.\<close>

definition file_audio :: "string \<Rightarrow> audio" where
  "file_audio p = \<lparr>audio_content = None, audio_url = None, audio_url_content = None,
     audio_filepath = Some p, audio_format = None\<rparr>"

text \<open>\<^verbatim>\<open>Groq(response_format={"type": "json_object"})\<close>.\<close>

definition json_groq :: groq where
  "json_groq = default_groq\<lparr>response_format := Some [''type'' \<mapsto> ''json_object'']\<rparr>"

text \<open>\<^verbatim>\<open>Message(role="system", content="Reply briefly.")\<close>.\<close>

definition system_message :: "unit message" where
  "system_message =
     \<lparr>role = ''system'', content = Some (Text ''Reply briefly.''), name = None,
      tool_call_id = None, tool_calls = None, images = None, audio = None, videos = None\<rparr>"

text \<open>Two complete tool calls, each sent as a single fragment.\<close>

definition time_fragment :: delta_tool_call where
  \<open>time_fragment = \<lparr>tc_index = 1, tc_id = Some ''call_b'', tc_type = Some ''function'',
      tc_function = Some \<lparr>fn_name = Some ''get_time'', fn_arguments = Some ''{}''\<rparr>\<rparr>\<close>

definition weather_fragment :: delta_tool_call where
  \<open>weather_fragment = \<lparr>tc_index = 0, tc_id = Some ''call_a'', tc_type = Some ''function'',
      tc_function = Some \<lparr>fn_name = Some ''get_weather'', fn_arguments = Some ''{"a":1}''\<rparr>\<rparr>\<close>

text \<open>
  Tool calls as numbers, with a conversion that raises on 0 and returns every other
  number as it is; a response whose first choice carries given tool calls.
\<close>

definition dump_nonzero :: "nat \<Rightarrow> error + nat" where
  "dump_nonzero t = (if t = 0 then Inl (OtherException ''malformed tool call'') else Inr t)"

definition tool_response :: "nat list \<Rightarrow> completion_usage option \<Rightarrow> nat chat_completion" where
  "tool_response ts u =
     \<lparr>choices = [\<lparr>choice_message =
         \<lparr>cm_role = Some ''assistant'', cm_content = None, cm_tool_calls = Some ts\<rparr>\<rparr>],
      usage = u\<rparr>"

text \<open>A usage with 10 prompt tokens, 5 completion tokens and a given total.\<close>

definition usage_10_5 :: "int option \<Rightarrow> completion_usage" where
  "usage_10_5 provider_total =
     \<lparr>prompt_tokens = Some 10, completion_tokens = Some 5, usage_total_tokens = provider_total,
      completion_time = None, prompt_time = None, queue_time = None, total_time = None\<rparr>"

text \<open>The status error of an HTTP response 429, and a provider that raises it on every call.\<close>

definition rate_limited :: error where
  "rate_limited =
     APIStatusError \<lparr>response_status_code = 429, response_text = ''rate limited''\<rparr>
       ''Error code: 429''"

definition failing_provider :: "(unit, unit, unit) collaborators" where
  "failing_provider =
     no_collaborators\<lparr>chat_create := (\<lambda>_. Inl rate_limited),
                      chat_create_stream := (\<lambda>_. Inl rate_limited)\<rparr>"

text \<open>
  A provider whose stream yields two chunks and then raises the same error while it is
  read, and an adapter that has an API key.
\<close>

definition failing_stream_provider :: "(unit, unit, unit) collaborators" where
  "failing_stream_provider =
     no_collaborators\<lparr>chat_create_stream := (\<lambda>_. Inr (Stream [(), ()] (Some rate_limited)))\<rparr>"

definition keyed_groq :: groq where
  "keyed_groq = default_groq\<lparr>api_key := Some ''gsk_example''\<rparr>"

section \<open>Reassembly of streamed tool calls\<close>

text \<open>Appending under \<^verbatim>\<open>if s:\<close> is appending \<^verbatim>\<open>s or ""\<close>.\<close>

lemma append_if_truthy_or_empty: "append_if_truthy t s = t @ or_empty s"
  by (simp add: append_if_truthy_def or_empty_def or_default_def split: option.splits)

lemma list_position_in_range: "0 \<le> i \<Longrightarrow> i < int n \<Longrightarrow> list_position n i = Inr (nat i)"
  by (simp add: list_position_def)

text \<open>
  The two ways a loop iteration runs on a non-negative index: the index lies in the
  list, or the list is extended by references to one new dict, which the fragment then
  initialises.
\<close>

lemma parse_step_present:
  assumes "0 \<le> tc_index tc" and "tc_index tc < int (length refs)"
  shows "parse_step tc (refs, store) =
           Inr (refs, store\<lparr>dicts := (dicts store)
                  (refs ! nat (tc_index tc) := merge_fragment tc (dicts store (refs ! nat (tc_index tc))))\<rparr>)"
  using assms by (simp add: parse_step_def list_position_in_range Let_def)

lemma parse_step_grow:
  assumes "int (length refs) \<le> tc_index tc"
  shows "parse_step tc (refs, store) =
           Inr (refs @ replicate (nat (tc_index tc - int (length refs) + 1)) (next_ref store),
                \<lparr>next_ref = Suc (next_ref store),
                 dicts = (dicts store)(next_ref store := merge_fragment tc None)\<rparr>)"
proof -
  let ?k = "nat (tc_index tc - int (length refs) + 1)"
  have len: "int (length (refs @ replicate ?k (next_ref store))) = tc_index tc + 1"
    using assms by simp
  have pos: "list_position (length (refs @ replicate ?k (next_ref store))) (tc_index tc) = Inr (nat (tc_index tc))"
    using assms len by (intro list_position_in_range) linarith+
  have ge: "\<not> nat (tc_index tc) < length refs" and lt: "nat (tc_index tc) - length refs < ?k"
    using assms by linarith+
  have nth: "(refs @ replicate ?k (next_ref store)) ! nat (tc_index tc) = next_ref store"
    using ge lt by (simp add: nth_append)
  show ?thesis
    using assms pos nth by (simp add: parse_step_def extend_placeholders_def Let_def)
qed

lemmas parse_eval = parse_tool_calls_def parse_tool_calls_refs_def empty_store_def parse_step_grow
        parse_step_present merge_fragment_def function_name_of_def function_arguments_of_def
        or_empty_def or_default_def append_if_truthy_def truthy_def

text \<open>Fragments that all carry index 0, met with an initialised dict at that index.\<close>

lemma same_index_loop:
  assumes "\<forall>tc\<in>set tcs. tc_index tc = 0" and "dicts store r = Some e"
  shows "\<exists>store' e'. parse_loop tcs ([r], store) = Inr ([r], store') \<and> dicts store' r = Some e' \<and>
            entry_name e' = entry_name e @ concat (map (\<lambda>tc. or_empty (function_name_of tc)) tcs) \<and>
            entry_arguments e' =
              entry_arguments e @ concat (map (\<lambda>tc. or_empty (function_arguments_of tc)) tcs)"
  using assms
proof (induction tcs arbitrary: store e)
  case Nil
  then show ?case by simp
next
  case (Cons tc tcs)
  have idx: "tc_index tc = 0" using Cons.prems(1) by simp
  let ?e1 = "\<lparr>entry_id = (if truthy (tc_id tc) then tc_id tc else entry_id e),
                entry_type = (if truthy (tc_type tc) then tc_type tc else entry_type e),
                entry_name = append_if_truthy (entry_name e) (function_name_of tc),
                entry_arguments = append_if_truthy (entry_arguments e) (function_arguments_of tc)\<rparr>"
  let ?s1 = "store\<lparr>dicts := (dicts store)(r := Some ?e1)\<rparr>"
  have step: "parse_step tc ([r], store) = Inr ([r], ?s1)"
    using idx Cons.prems(2) by (simp add: parse_step_present merge_fragment_def)
  have "dicts ?s1 r = Some ?e1" by simp
  from Cons.IH [OF _ this] Cons.prems(1)
  obtain store' e' where
    "parse_loop tcs ([r], ?s1) = Inr ([r], store')" "dicts store' r = Some e'"
    "entry_name e' = entry_name ?e1 @ concat (map (\<lambda>tc. or_empty (function_name_of tc)) tcs)"
    "entry_arguments e' = entry_arguments ?e1 @ concat (map (\<lambda>tc. or_empty (function_arguments_of tc)) tcs)"
    by auto
  then show ?case
    using step by (simp add: append_if_truthy_or_empty)
qed

text \<open>
  C1. The fragments \<^verbatim>\<open>{index: 0, name: "get_", arguments: "{\"a\""}\<close> and
  \<^verbatim>\<open>{index: 0, name: "weather", arguments: ":1}"}\<close>, whatever their ids and types,
  give one entry, at index 0, with the name \<^verbatim>\<open>get_weather\<close> and the arguments
  \<^verbatim>\<open>{"a":1}\<close>. More generally, any non-empty list of fragments that all carry index 0
  gives one entry whose name is the concatenation of the fragments' names and whose
  arguments are the concatenation of their arguments, in the order of arrival: later
  text is appended, never written over earlier text.
\<close>

theorem parse_tool_calls_same_index:
  \<open>parse_tool_calls
      [\<lparr>tc_index = 0, tc_id = i1, tc_type = t1,
        tc_function = Some \<lparr>fn_name = Some ''get_'', fn_arguments = Some ''{"a"''\<rparr>\<rparr>,
       \<lparr>tc_index = 0, tc_id = i2, tc_type = t2,
        tc_function = Some \<lparr>fn_name = Some ''weather'', fn_arguments = Some '':1}''\<rparr>\<rparr>]
    = Inr [Some \<lparr>entry_id = (if truthy i2 then i2 else i1),
                 entry_type = (if truthy t2 then t2 else t1),
                 entry_name = ''get_weather'', entry_arguments = ''{"a":1}''\<rparr>]
   \<and> (tcs \<noteq> [] \<and> (\<forall>tc\<in>set tcs. tc_index tc = 0) \<longrightarrow>
        (\<exists>i t. parse_tool_calls tcs =
           Inr [Some \<lparr>entry_id = i, entry_type = t,
                      entry_name = concat (map (\<lambda>tc. or_empty (function_name_of tc)) tcs),
                      entry_arguments = concat (map (\<lambda>tc. or_empty (function_arguments_of tc)) tcs)\<rparr>]))\<close>
proof (intro conjI impI)
  show \<open>parse_tool_calls
      [\<lparr>tc_index = 0, tc_id = i1, tc_type = t1,
        tc_function = Some \<lparr>fn_name = Some ''get_'', fn_arguments = Some ''{"a"''\<rparr>\<rparr>,
       \<lparr>tc_index = 0, tc_id = i2, tc_type = t2,
        tc_function = Some \<lparr>fn_name = Some ''weather'', fn_arguments = Some '':1}''\<rparr>\<rparr>]
    = Inr [Some \<lparr>entry_id = (if truthy i2 then i2 else i1),
                 entry_type = (if truthy t2 then t2 else t1),
                 entry_name = ''get_weather'', entry_arguments = ''{"a":1}''\<rparr>]\<close>
    by (simp add: parse_tool_calls_def parse_tool_calls_refs_def empty_store_def parse_step_grow
        parse_step_present merge_fragment_def function_name_of_def function_arguments_of_def
        or_empty_def or_default_def append_if_truthy_def)
next
  assume a: "tcs \<noteq> [] \<and> (\<forall>tc\<in>set tcs. tc_index tc = 0)"
  then obtain tc rest where tcs: "tcs = tc # rest" by (cases tcs) auto
  have idx: "tc_index tc = 0" and rest: "\<forall>tc\<in>set rest. tc_index tc = 0"
    using a tcs by auto
  let ?e0 = "\<lparr>entry_id = tc_id tc, entry_type = tc_type tc,
               entry_name = or_empty (function_name_of tc),
               entry_arguments = or_empty (function_arguments_of tc)\<rparr>"
  let ?s0 = "\<lparr>next_ref = Suc 0, dicts = (\<lambda>_. None)(0 := Some ?e0)\<rparr>"
  have step: "parse_step tc ([], empty_store) = Inr ([0], ?s0)"
    using idx by (simp add: parse_step_grow empty_store_def merge_fragment_def)
  have "dicts ?s0 0 = Some ?e0" by simp
  from same_index_loop [OF rest this]
  obtain store' e' where
    loop: "parse_loop rest ([0], ?s0) = Inr ([0], store')" and e': "dicts store' 0 = Some e'" and
    nm: "entry_name e' = entry_name ?e0 @ concat (map (\<lambda>tc. or_empty (function_name_of tc)) rest)" and
    ar: "entry_arguments e' = entry_arguments ?e0 @ concat (map (\<lambda>tc. or_empty (function_arguments_of tc)) rest)"
    by blast
  have "parse_tool_calls tcs = Inr [Some e']"
    using step loop e' tcs by (simp add: parse_tool_calls_def parse_tool_calls_refs_def)
  moreover have "e' = \<lparr>entry_id = entry_id e', entry_type = entry_type e',
                      entry_name = concat (map (\<lambda>tc. or_empty (function_name_of tc)) tcs),
                      entry_arguments = concat (map (\<lambda>tc. or_empty (function_arguments_of tc)) tcs)\<rparr>"
    using nm ar tcs by simp
  ultimately show "\<exists>i t. parse_tool_calls tcs =
           Inr [Some \<lparr>entry_id = i, entry_type = t,
                      entry_name = concat (map (\<lambda>tc. or_empty (function_name_of tc)) tcs),
                      entry_arguments = concat (map (\<lambda>tc. or_empty (function_arguments_of tc)) tcs)\<rparr>]"
    by metis
qed

text \<open>The general part of C1 at three fragments, one of them without a function.\<close>

theorem parse_tool_calls_same_index_witness:
  "[\<lparr>tc_index = 0, tc_id = Some ''call_1'', tc_type = Some ''function'',
        tc_function = Some \<lparr>fn_name = Some ''sea'', fn_arguments = Some ''[''\<rparr>\<rparr>,
    \<lparr>tc_index = 0, tc_id = None, tc_type = None, tc_function = None\<rparr>,
    \<lparr>tc_index = 0, tc_id = None, tc_type = None,
        tc_function = Some \<lparr>fn_name = Some ''rch'', fn_arguments = Some '']''\<rparr>\<rparr>] \<noteq> []
   \<and> tc_index \<lparr>tc_index = 0, tc_id = Some ''call_1'', tc_type = Some ''function'',
        tc_function = Some \<lparr>fn_name = Some ''sea'', fn_arguments = Some ''[''\<rparr>\<rparr> = 0
   \<and> tc_index \<lparr>tc_index = 0, tc_id = None, tc_type = None, tc_function = None\<rparr> = 0
   \<and> tc_index \<lparr>tc_index = 0, tc_id = None, tc_type = None,
        tc_function = Some \<lparr>fn_name = Some ''rch'', fn_arguments = Some '']''\<rparr>\<rparr> = 0
   \<and> (\<exists>i t. parse_tool_calls
      [\<lparr>tc_index = 0, tc_id = Some ''call_1'', tc_type = Some ''function'',
        tc_function = Some \<lparr>fn_name = Some ''sea'', fn_arguments = Some ''[''\<rparr>\<rparr>,
    \<lparr>tc_index = 0, tc_id = None, tc_type = None, tc_function = None\<rparr>,
    \<lparr>tc_index = 0, tc_id = None, tc_type = None,
        tc_function = Some \<lparr>fn_name = Some ''rch'', fn_arguments = Some '']''\<rparr>\<rparr>]
      = Inr [Some \<lparr>entry_id = i, entry_type = t, entry_name = ''search'', entry_arguments = ''[]''\<rparr>])"
  using parse_tool_calls_same_index [of None None None None
     "[\<lparr>tc_index = 0, tc_id = Some ''call_1'', tc_type = Some ''function'',
        tc_function = Some \<lparr>fn_name = Some ''sea'', fn_arguments = Some ''[''\<rparr>\<rparr>,
    \<lparr>tc_index = 0, tc_id = None, tc_type = None, tc_function = None\<rparr>,
    \<lparr>tc_index = 0, tc_id = None, tc_type = None,
        tc_function = Some \<lparr>fn_name = Some ''rch'', fn_arguments = Some '']''\<rparr>\<rparr>]"]
  by (simp add: function_name_of_def function_arguments_of_def or_empty_def or_default_def)

text \<open>
  Any fragment with index 1 followed by any fragment with index 0: both positions of the
  result hold the second fragment merged into the dict that the first one initialised.
\<close>

lemma parse_tool_calls_index_1_then_0:
  "parse_tool_calls [f1\<lparr>tc_index := 1\<rparr>, f0\<lparr>tc_index := 0\<rparr>] =
     Inr [merge_fragment (f0\<lparr>tc_index := 0\<rparr>) (merge_fragment (f1\<lparr>tc_index := 1\<rparr>) None),
          merge_fragment (f0\<lparr>tc_index := 0\<rparr>) (merge_fragment (f1\<lparr>tc_index := 1\<rparr>) None)]"
  by (simp add: parse_tool_calls_def parse_tool_calls_refs_def empty_store_def parse_step_grow
      parse_step_present numeral_2_eq_2)

text \<open>
  C2. A fragment with index 1 followed by a fragment with index 0. The first fragment
  extends the empty list by \<^verbatim>\<open>[{}] * 2\<close>, two references to one dict, and initialises
  that dict; the second fragment finds the dict at index 0 initialised and is merged into
  it. The list has length 2, and both entries are the one dict that holds the ids, names
  and arguments of both fragments. In the other order of arrival each fragment gets a
  dict of its own.
\<close>

theorem parse_tool_calls_shared_placeholder:
  \<open>parse_tool_calls [time_fragment, weather_fragment] =
     Inr [Some \<lparr>entry_id = Some ''call_a'', entry_type = Some ''function'',
                 entry_name = ''get_timeget_weather'', entry_arguments = ''{}{"a":1}''\<rparr>,
          Some \<lparr>entry_id = Some ''call_a'', entry_type = Some ''function'',
                 entry_name = ''get_timeget_weather'', entry_arguments = ''{}{"a":1}''\<rparr>]
   \<and> parse_tool_calls [weather_fragment, time_fragment] =
     Inr [Some \<lparr>entry_id = Some ''call_a'', entry_type = Some ''function'',
                 entry_name = ''get_weather'', entry_arguments = ''{"a":1}''\<rparr>,
          Some \<lparr>entry_id = Some ''call_b'', entry_type = Some ''function'',
                 entry_name = ''get_time'', entry_arguments = ''{}''\<rparr>]\<close>
  by (simp add: parse_eval time_fragment_def weather_fragment_def numeral_2_eq_2)

text \<open>The length of the list after one iteration, and after the loop.\<close>

lemma parse_step_length:
  assumes "0 \<le> tc_index tc"
  shows "\<exists>refs' store'. parse_step tc (refs, store) = Inr (refs', store') \<and>
           length refs' = max (length refs) (nat (tc_index tc) + 1)"
proof (cases "int (length refs) \<le> tc_index tc")
  case True
  then have "length refs + nat (tc_index tc - int (length refs) + 1) = max (length refs) (nat (tc_index tc) + 1)"
    by linarith
  then show ?thesis using True by (simp add: parse_step_grow)
next
  case False
  then have "max (length refs) (nat (tc_index tc) + 1) = length refs" using assms by linarith
  then show ?thesis using False assms by (simp add: parse_step_present)
qed

lemma parse_loop_length:
  assumes "\<forall>tc\<in>set tcs. 0 \<le> tc_index tc"
  shows "\<exists>refs' store'. parse_loop tcs (refs, store) = Inr (refs', store') \<and>
           length refs' =
             max (length refs) (if tcs = [] then 0 else nat (Max (tc_index ` set tcs)) + 1)"
  using assms
proof (induction tcs arbitrary: refs store)
  case Nil
  then show ?case by simp
next
  case (Cons tc tcs)
  have nonneg: "0 \<le> tc_index tc" using Cons.prems by simp
  from parse_step_length [OF nonneg, of refs store]
  obtain refs1 store1 where
    step: "parse_step tc (refs, store) = Inr (refs1, store1)" and
    len1: "length refs1 = max (length refs) (nat (tc_index tc) + 1)"
    by blast
  from Cons.IH [of refs1 store1] Cons.prems
  obtain refs' store' where
    loop: "parse_loop tcs (refs1, store1) = Inr (refs', store')" and
    len': "length refs' = max (length refs1) (if tcs = [] then 0 else nat (Max (tc_index ` set tcs)) + 1)"
    by auto
  have "length refs' = max (length refs) (nat (Max (tc_index ` set (tc # tcs))) + 1)"
  proof (cases "tcs = []")
    case True
    then show ?thesis using len' len1 by simp
  next
    case False
    then have "Max (tc_index ` set (tc # tcs)) = max (tc_index tc) (Max (tc_index ` set tcs))"
      by simp
    moreover have "nat (max a b) = max (nat a) (nat b)" for a b :: int
      by linarith
    ultimately show ?thesis using len' len1 False by (simp add: max.assoc)
  qed
  then show ?case using step loop by simp
qed

text \<open>
  C10, as amended. For every list of fragments whose indices are all non-negative,
  \<^verbatim>\<open>parse_tool_calls\<close> returns a list; its length is 0 when there is no fragment, and
  one more than the largest index otherwise.
\<close>

theorem parse_tool_calls_length:
  assumes "\<forall>tc\<in>set tcs. 0 \<le> tc_index tc"
  shows "\<exists>out. parse_tool_calls tcs = Inr out \<and>
           length out = (if tcs = [] then 0 else nat (Max (tc_index ` set tcs)) + 1)"
proof -
  from parse_loop_length [OF assms, of "[]" empty_store]
  obtain refs' store' where
    "parse_loop tcs ([], empty_store) = Inr (refs', store')"
    "length refs' = (if tcs = [] then 0 else nat (Max (tc_index ` set tcs)) + 1)"
    by auto
  then show ?thesis by (simp add: parse_tool_calls_def parse_tool_calls_refs_def)
qed

text \<open>Indices 2 and 0: a list of length 3.\<close>

theorem parse_tool_calls_length_witness:
  "0 \<le> tc_index (time_fragment\<lparr>tc_index := 2\<rparr>) \<and> 0 \<le> tc_index weather_fragment
   \<and> (\<exists>out. parse_tool_calls [time_fragment\<lparr>tc_index := 2\<rparr>, weather_fragment] = Inr out \<and>
          length out = 3)"
  using parse_tool_calls_length [of "[time_fragment\<lparr>tc_index := 2\<rparr>, weather_fragment]"]
  by (simp add: time_fragment_def weather_fragment_def)

text \<open>
  C10 as stated fails in both of its parts. After the single fragment with index 1, the
  entry at index 0, for which no fragment arrived, is not an empty mapping: it is the
  dict of index 1. And a single fragment with index -1 gives no list at all:
  \<^verbatim>\<open>tool_calls[-1]\<close> on the empty list raises \<^verbatim>\<open>IndexError\<close>.
\<close>

theorem parse_tool_calls_length_counterexample:
  \<open>parse_tool_calls [time_fragment] =
     Inr [Some \<lparr>entry_id = Some ''call_b'', entry_type = Some ''function'',
                 entry_name = ''get_time'', entry_arguments = ''{}''\<rparr>,
          Some \<lparr>entry_id = Some ''call_b'', entry_type = Some ''function'',
                 entry_name = ''get_time'', entry_arguments = ''{}''\<rparr>]
   \<and> parse_tool_calls [time_fragment\<lparr>tc_index := - 1\<rparr>] = Inl IndexError\<close>
proof
  show \<open>parse_tool_calls [time_fragment] =
     Inr [Some \<lparr>entry_id = Some ''call_b'', entry_type = Some ''function'',
                 entry_name = ''get_time'', entry_arguments = ''{}''\<rparr>,
          Some \<lparr>entry_id = Some ''call_b'', entry_type = Some ''function'',
                 entry_name = ''get_time'', entry_arguments = ''{}''\<rparr>]\<close>
    by (simp add: parse_eval time_fragment_def numeral_2_eq_2)
  show "parse_tool_calls [time_fragment\<lparr>tc_index := - 1\<rparr>] = Inl IndexError"
    by (simp add: parse_tool_calls_def parse_tool_calls_refs_def parse_step_def list_position_def)
qed

section \<open>Parsing a complete response\<close>

text \<open>
  The comprehension over the tool calls yields a list of the same length, element by
  element, exactly when no conversion raises.
\<close>

lemma dump_all_length: "dump_all f ts = Inr ds \<Longrightarrow> length ds = length ts"
  by (induction ts arbitrary: ds) (auto split: sum.splits)

lemma dump_all_nth:
  "dump_all f ts = Inr ds \<Longrightarrow> i < length ts \<Longrightarrow> f (ts ! i) = Inr (ds ! i)"
proof (induction ts arbitrary: ds i)
  case Nil
  then show ?case by simp
next
  case (Cons t ts)
  then show ?case by (cases i) (auto split: sum.splits)
qed

lemma dump_all_fails:
  "dump_all f ts = Inl e \<Longrightarrow> \<exists>t\<in>set ts. f t = Inl e"
  by (induction ts) (auto split: sum.splits)

lemma dump_all_fails_iff:
  "(\<exists>e. dump_all f ts = Inl e) \<longleftrightarrow> (\<exists>t\<in>set ts. \<exists>e. f t = Inl e)"
proof
  assume "\<exists>e. dump_all f ts = Inl e"
  then show "\<exists>t\<in>set ts. \<exists>e. f t = Inl e" using dump_all_fails by blast
next
  assume a: "\<exists>t\<in>set ts. \<exists>e. f t = Inl e"
  show "\<exists>e. dump_all f ts = Inl e"
  proof (cases "dump_all f ts")
    case (Inl e)
    then show ?thesis by blast
  next
    case (Inr ds)
    from a obtain t e where "t \<in> set ts" "f t = Inl e" by blast
    then obtain i where "i < length ts" "ts ! i = t" by (auto simp: in_set_conv_nth)
    with dump_all_nth [OF Inr, of i] \<open>f t = Inl e\<close> show ?thesis by simp
  qed
qed

text \<open>
  C3. For a response whose first choice carries a non-empty list of tool calls,
  \<^verbatim>\<open>parse_provider_response\<close> returns a \<^verbatim>\<open>ModelResponse\<close> and does not raise. If
  the conversion of some tool call raises, \<^verbatim>\<open>tool_calls\<close> is left unset; otherwise it
  is a list of as many elements as the response has tool calls, the element at each
  position being the conversion of the tool call at that position.
\<close>

theorem parse_provider_response_tool_calls:
  assumes "choices response = first_choice # others"
    and "cm_tool_calls (choice_message first_choice) = Some ts" and "ts \<noteq> []"
  shows "\<exists>r. parse_provider_response model_dump response = Inr r \<and>
           (if \<exists>t\<in>set ts. \<exists>e. model_dump t = Inl e
            then response_tool_calls r = None
            else \<exists>ds. response_tool_calls r = Some ds \<and> length ds = length ts \<and>
                       (\<forall>i<length ts. model_dump (ts ! i) = Inr (ds ! i)))"
proof (cases "dump_all model_dump ts")
  case (Inl e)
  then have "\<exists>t\<in>set ts. \<exists>e. model_dump t = Inl e" using dump_all_fails by blast
  then show ?thesis
    using assms Inl
    by (simp add: parse_provider_response_def Let_def split: option.splits)
next
  case (Inr ds)
  then have "\<not> (\<exists>t\<in>set ts. \<exists>e. model_dump t = Inl e)"
    using dump_all_fails_iff [of model_dump ts] by simp
  moreover have "length ds = length ts" using Inr by (rule dump_all_length)
  moreover have "\<forall>i<length ts. model_dump (ts ! i) = Inr (ds ! i)"
    using Inr dump_all_nth by blast
  ultimately show ?thesis
    using assms Inr
    by (simp add: parse_provider_response_def Let_def split: option.splits)
qed

text \<open>
  Three tool calls of which the second fails to convert: no tool calls in the result.
  Two tool calls that convert: both in the result.
\<close>

theorem parse_provider_response_tool_calls_witness:
  "choices (tool_response [1, 0, 2] None) =
      \<lparr>choice_message = \<lparr>cm_role = Some ''assistant'', cm_content = None,
          cm_tool_calls = Some [1, 0, 2]\<rparr>\<rparr> # []
   \<and> cm_tool_calls (choice_message \<lparr>choice_message = \<lparr>cm_role = Some ''assistant'',
          cm_content = None, cm_tool_calls = Some [1, 0, 2]\<rparr>\<rparr>) = Some [1, 0, 2]
   \<and> [1, 0, 2 :: nat] \<noteq> []
   \<and> (\<exists>r. parse_provider_response dump_nonzero (tool_response [1, 0, 2] None) = Inr r \<and>
          response_tool_calls r = None)
   \<and> choices (tool_response [1, 2] None) =
      \<lparr>choice_message = \<lparr>cm_role = Some ''assistant'', cm_content = None,
          cm_tool_calls = Some [1, 2]\<rparr>\<rparr> # []
   \<and> cm_tool_calls (choice_message \<lparr>choice_message = \<lparr>cm_role = Some ''assistant'',
          cm_content = None, cm_tool_calls = Some [1, 2]\<rparr>\<rparr>) = Some [1, 2]
   \<and> [1, 2 :: nat] \<noteq> []
   \<and> (\<exists>r. parse_provider_response dump_nonzero (tool_response [1, 2] None) = Inr r \<and>
          response_tool_calls r = Some [1, 2])"
proof -
  have failing: "\<exists>r. parse_provider_response dump_nonzero (tool_response [1, 0, 2] None) = Inr r \<and>
          response_tool_calls r = None"
    using parse_provider_response_tool_calls [where response = "tool_response [1, 0, 2] None"
      and first_choice = "\<lparr>choice_message = \<lparr>cm_role = Some ''assistant'', cm_content = None,
          cm_tool_calls = Some [1, 0, 2]\<rparr>\<rparr>" and others = "[]" and ts = "[1, 0, 2]"
      and model_dump = dump_nonzero]
    by (simp add: tool_response_def dump_nonzero_def)
  from parse_provider_response_tool_calls [where response = "tool_response [1, 2] None"
      and first_choice = "\<lparr>choice_message = \<lparr>cm_role = Some ''assistant'', cm_content = None,
          cm_tool_calls = Some [1, 2]\<rparr>\<rparr>" and others = "[]" and ts = "[1, 2]"
      and model_dump = dump_nonzero]
  obtain r ds where r: "parse_provider_response dump_nonzero (tool_response [1, 2] None) = Inr r"
    and ds: "response_tool_calls r = Some ds" "length ds = 2"
      "\<forall>i<2. dump_nonzero ([1, 2] ! i) = Inr (ds ! i)"
    by (auto simp: tool_response_def dump_nonzero_def)
  have "ds ! 0 = 1" "ds ! 1 = 2"
    using ds(3) [rule_format, of 0] ds(3) [rule_format, of 1] by (simp_all add: dump_nonzero_def)
  then have "ds = [1, 2]"
    using ds(2) by (intro nth_equalityI) (auto simp: less_2_cases_iff)
  then show ?thesis
    using failing r ds(1) by (simp add: tool_response_def)
qed

text \<open>
  C6, as amended. For a response with a first choice and a usage with
  \<^verbatim>\<open>prompt_tokens\<close> 10 and \<^verbatim>\<open>completion_tokens\<close> 5, the parsed usage has
  \<^verbatim>\<open>input_tokens\<close> 10, \<^verbatim>\<open>output_tokens\<close> 5, and as \<^verbatim>\<open>total_tokens\<close> the total
  of the provider as it is: that total when there is one, and nothing when there is
  none. No sum is computed.
\<close>

theorem parse_provider_response_usage:
  assumes "choices response = first_choice # others" and "usage response = Some u"
    and "prompt_tokens u = Some 10" and "completion_tokens u = Some 5"
  shows "\<exists>r ud. parse_provider_response model_dump response = Inr r \<and>
           response_usage r = Some ud \<and> input_tokens ud = Some 10 \<and> output_tokens ud = Some 5 \<and>
           total_tokens ud = usage_total_tokens u"
  using assms
  by (simp add: parse_provider_response_def Let_def split: option.splits sum.splits)

text \<open>A provider total of 20 is handed on, although the sum is 15.\<close>

theorem parse_provider_response_usage_witness:
  "choices (tool_response [] (Some (usage_10_5 (Some 20)))) =
      \<lparr>choice_message = \<lparr>cm_role = Some ''assistant'', cm_content = None,
          cm_tool_calls = Some []\<rparr>\<rparr> # []
   \<and> usage (tool_response [] (Some (usage_10_5 (Some 20)))) = Some (usage_10_5 (Some 20))
   \<and> prompt_tokens (usage_10_5 (Some 20)) = Some 10
   \<and> completion_tokens (usage_10_5 (Some 20)) = Some 5
   \<and> (\<exists>r ud. parse_provider_response dump_nonzero (tool_response [] (Some (usage_10_5 (Some 20)))) = Inr r \<and>
           response_usage r = Some ud \<and> input_tokens ud = Some 10 \<and> output_tokens ud = Some 5 \<and>
           total_tokens ud = Some 20)"
  using parse_provider_response_usage [where response = "tool_response [] (Some (usage_10_5 (Some 20)))"
      and first_choice = "\<lparr>choice_message = \<lparr>cm_role = Some ''assistant'', cm_content = None,
          cm_tool_calls = Some []\<rparr>\<rparr>" and others = "[]" and u = "usage_10_5 (Some 20)"
      and model_dump = dump_nonzero]
  by (simp add: tool_response_def usage_10_5_def)

text \<open>
  C6 as stated fails when the provider gives no total: \<^verbatim>\<open>total_tokens\<close> is then
  absent from the parsed usage, not 15.
\<close>

theorem parse_provider_response_usage_counterexample:
  "parse_provider_response dump_nonzero (tool_response [] (Some (usage_10_5 None))) =
     Inr \<lparr>response_role = Some ''assistant'', response_content = None,
          response_tool_calls = None,
          response_usage = Some \<lparr>input_tokens = Some 10, output_tokens = Some 5,
            total_tokens = None,
            additional = \<lparr>metric_completion_time = None, metric_prompt_time = None,
              metric_queue_time = None, metric_total_time = None\<rparr>\<rparr>\<rparr>"
  by (simp add: parse_provider_response_def tool_response_def usage_10_5_def)

section \<open>Formatting a message\<close>

text \<open>
  Without images and audio, the mapping is the one built from the message before the
  directive is appended. The fields of the message other than its content stay as they
  are.
\<close>

lemma format_message_text_only:
  assumes "images msg = None" and "audio msg = None"
  shows "format_message c st msg = (message_to_dict msg, add_json_directive (fst st) msg, st)"
proof -
  have "images (add_json_directive (fst st) msg) = None" "audio (add_json_directive (fst st) msg) = None"
    using assms by (simp_all add: add_json_directive_def split: option.splits content.splits)
  then show ?thesis
    by (simp add: format_message_def add_images_def add_transcription_def)
qed

lemma format_message_other_fields:
  "role (fst (snd (format_message c st msg))) = role msg"
  "name (fst (snd (format_message c st msg))) = name msg"
  "tool_call_id (fst (snd (format_message c st msg))) = tool_call_id msg"
  "tool_calls (fst (snd (format_message c st msg))) = tool_calls msg"
  "images (fst (snd (format_message c st msg))) = images msg"
  "audio (fst (snd (format_message c st msg))) = audio msg"
  "videos (fst (snd (format_message c st msg))) = videos msg"
  by (simp_all add: format_message_def add_json_directive_def Let_def
      split: prod.splits option.splits content.splits)

text \<open>
  For every system message with string content and neither images nor audio, under a
  JSON response format: the mapping has the content as it was, and the message has the
  content with the directive.
\<close>

lemma format_message_system_json:
  assumes "role msg = ''system''" and "content msg = Some (Text t)" and "json_requested (fst st)"
    and "images msg = None" and "audio msg = None"
  shows "md_content (fst (format_message c st msg)) = Some (Text t)"
    and "content (fst (snd (format_message c st msg))) = Some (Text (t @ json_directive))"
  using assms
  by (simp_all add: format_message_text_only message_to_dict_def add_json_directive_def)

text \<open>
  C4. A system message with the string content \<^verbatim>\<open>Reply briefly.\<close>, formatted by an
  adapter whose response format asks for a JSON object: the content of the returned
  mapping is \<^verbatim>\<open>Reply briefly.\<close>, without the directive. The mapping is built before
  the directive is appended, and the directive is appended to the message, not to the
  mapping.
\<close>

theorem format_message_directive_missing:
  "fst (format_message c (json_groq, w) system_message) =
     \<lparr>md_role = Some ''system'', md_content = Some (Text ''Reply briefly.''), md_name = None,
      md_tool_call_id = None, md_tool_calls = None\<rparr>"
proof -
  have "images system_message = None" and "audio system_message = None"
    by (simp_all add: system_message_def)
  then have "fst (format_message c (json_groq, w) system_message) = message_to_dict system_message"
    by (simp add: format_message_text_only)
  then show ?thesis by (simp add: message_to_dict_def system_message_def)
qed

text \<open>
  C5. The same call changes the message: afterwards its content ends with the
  directive, so the message is not the one that was passed in, and formatting it a second
  time returns a mapping with another content than the first time.
\<close>

theorem format_message_mutates_message:
  "content (fst (snd (format_message c (json_groq, w) system_message))) =
     Some (Text (''Reply briefly.'' @ json_directive))
   \<and> fst (snd (format_message c (json_groq, w) system_message)) \<noteq> system_message
   \<and> md_content (fst (format_message c (json_groq, w) system_message)) =
       Some (Text ''Reply briefly.'')
   \<and> md_content (fst (format_message c (json_groq, w)
         (fst (snd (format_message c (json_groq, w) system_message))))) =
       Some (Text (''Reply briefly.'' @ json_directive))"
proof -
  let ?m1 = "system_message\<lparr>content := Some (Text (''Reply briefly.'' @ json_directive))\<rparr>"
  have d: "json_directive \<noteq> []" by (simp add: json_directive_def)
  have j: "json_requested json_groq"
    by (simp add: json_requested_def json_groq_def default_groq_def)
  have im: "images system_message = None" "audio system_message = None"
    by (simp_all add: system_message_def)
  have im1: "images ?m1 = None" "audio ?m1 = None"
    by (simp_all add: system_message_def)
  have a: "add_json_directive json_groq system_message = ?m1"
    using j by (simp add: add_json_directive_def system_message_def)
  have 1: "format_message c (json_groq, w) system_message =
      (message_to_dict system_message, ?m1, json_groq, w)"
    using format_message_text_only [OF im, of c "(json_groq, w)"] a by simp
  have 2: "fst (format_message c (json_groq, w) ?m1) = message_to_dict ?m1"
    using format_message_text_only [OF im1, of c "(json_groq, w)"] by simp
  have 3: "?m1 \<noteq> system_message"
  proof
    assume "?m1 = system_message"
    then have "content ?m1 = content system_message" by simp
    then show False using d by (simp add: system_message_def)
  qed
  have 4: "md_content (message_to_dict system_message) = Some (Text ''Reply briefly.'')"
    by (simp add: message_to_dict_def system_message_def)
  have 5: "md_content (message_to_dict ?m1) = Some (Text (''Reply briefly.'' @ json_directive))"
    by (simp add: message_to_dict_def)
  show ?thesis using 1 2 3 4 5 by simp
qed

section \<open>Errors of the provider\<close>

text \<open>
  Nothing that runs before the request is sent changes the id or the name of the
  adapter.
\<close>

lemma get_client_params_frame:
  "groq_id (snd (get_client_params c self)) = groq_id self"
  "groq_name (snd (get_client_params c self)) = groq_name self"
  "request_kwargs (snd (get_client_params c self)) = request_kwargs self"
  "response_format (snd (get_client_params c self)) = response_format self"
  "client (snd (get_client_params c self)) = client self"
  "async_client (snd (get_client_params c self)) = async_client self"
  "http_client (snd (get_client_params c self)) = http_client self"
  by (simp_all add: get_client_params_def Let_def)

lemma get_client_identity:
  "groq_id (fst (snd (get_client c st))) = groq_id (fst st) \<and>
   groq_name (fst (snd (get_client c st))) = groq_name (fst st)"
proof (cases st)
  case (Pair self w)
  obtain params self0 where gp: "get_client_params c self = (params, self0)"
    by (cases "get_client_params c self") auto
  have "groq_id self0 = groq_id self" "groq_name self0 = groq_name self"
    using get_client_params_frame(1,2) [of c self] gp by simp_all
  then show ?thesis
    using Pair gp by (simp add: get_client_def Let_def split: option.splits)
qed

lemma get_async_client_identity:
  "groq_id (fst (snd (get_async_client c st))) = groq_id (fst st) \<and>
   groq_name (fst (snd (get_async_client c st))) = groq_name (fst st)"
proof (cases st)
  case (Pair self w)
  obtain params self0 where gp: "get_client_params c self = (params, self0)"
    by (cases "get_client_params c self") auto
  have "groq_id self0 = groq_id self" "groq_name self0 = groq_name self"
    using get_client_params_frame(1,2) [of c self] gp by simp_all
  then show ?thesis
    using Pair gp by (simp add: get_async_client_def Let_def split: option.splits)
qed

lemma transcribe_audio_identity:
  "groq_id (fst (snd (transcribe_audio c st d ff l p rf t m))) = groq_id (fst st) \<and>
   groq_name (fst (snd (transcribe_audio c st d ff l p rf t m))) = groq_name (fst st)"
proof (cases "resolve_audio c d ff")
  case (Inl e)
  then show ?thesis by (simp add: transcribe_audio_def)
next
  case (Inr r)
  obtain cl self1 w1 where g: "get_client c st = (cl, self1, w1)"
    by (cases "get_client c st") auto
  have "groq_id self1 = groq_id (fst st)" "groq_name self1 = groq_name (fst st)"
    using get_client_identity [of c st] g by simp_all
  then show ?thesis
    using Inr g by (simp add: transcribe_audio_def Let_def split: prod.splits)
qed

lemma add_transcription_identity:
  "groq_id (fst (snd (add_transcription c st msg d))) = groq_id (fst st) \<and>
   groq_name (fst (snd (add_transcription c st msg d))) = groq_name (fst st)"
proof (cases "audio msg")
  case None
  then show ?thesis by (simp add: add_transcription_def)
next
  case (Some as)
  show ?thesis
  proof (cases as)
    case Nil
    then show ?thesis using Some by (simp add: add_transcription_def)
  next
    case (Cons a rest)
    let ?t = "transcribe_audio c st (AudioList (a # rest)) None None None (Some ''text'') None
                  ''whisper-large-v3-turbo''"
    obtain res st1 where t: "?t = (res, st1)" by (cases ?t) auto
    have "groq_id (fst st1) = groq_id (fst st) \<and> groq_name (fst st1) = groq_name (fst st)"
      using transcribe_audio_identity [of c st "AudioList (a # rest)" None None None "Some ''text''" None
                  "''whisper-large-v3-turbo''"] t by simp
    then show ?thesis
      using Some Cons t by (cases res) (simp_all add: add_transcription_def)
  qed
qed

lemma format_message_identity:
  "groq_id (fst (snd (snd (format_message c st msg)))) = groq_id (fst st) \<and>
   groq_name (fst (snd (snd (format_message c st msg)))) = groq_name (fst st)"
proof -
  let ?t = "add_transcription c st (add_json_directive (fst st) msg)
      (add_images c (add_json_directive (fst st) msg) (message_to_dict msg))"
  obtain d st1 where t: "?t = (d, st1)" by (cases ?t) auto
  then show ?thesis
    using add_transcription_identity [of c st "add_json_directive (fst st) msg"
      "add_images c (add_json_directive (fst st) msg) (message_to_dict msg)"]
    by (simp add: format_message_def Let_def)
qed

lemma format_messages_identity:
  "groq_id (fst (snd (snd (format_messages c st ms)))) = groq_id (fst st) \<and>
   groq_name (fst (snd (snd (format_messages c st ms)))) = groq_name (fst st)"
proof (induction ms arbitrary: st)
  case Nil
  then show ?case by simp
next
  case (Cons m ms)
  obtain d m1 st1 where f: "format_message c st m = (d, m1, st1)"
    by (cases "format_message c st m") auto
  have "groq_id (fst st1) = groq_id (fst st) \<and> groq_name (fst st1) = groq_name (fst st)"
    using format_message_identity [of c st m] f by simp
  moreover obtain ds ms1 st2 where "format_messages c st1 ms = (ds, ms1, st2)"
    by (cases "format_messages c st1 ms") auto
  ultimately show ?case
    using Cons.IH [of st1] f by simp
qed

lemma prepare_request_identity:
  "groq_id (fst (snd (snd (prepare_request c is_async streaming st ms)))) = groq_id (fst st) \<and>
   groq_name (fst (snd (snd (prepare_request c is_async streaming st ms)))) = groq_name (fst st)"
proof -
  let ?g = "if is_async then get_async_client c st else get_client c st"
  obtain cl st1 where g: "?g = (cl, st1)" by (cases ?g) auto
  have 1: "groq_id (fst st1) = groq_id (fst st) \<and> groq_name (fst st1) = groq_name (fst st)"
    using get_client_identity [of c st] get_async_client_identity [of c st] g
    by (cases is_async) simp_all
  obtain ds ms1 self2 w2 where f: "format_messages c st1 ms = (ds, ms1, self2, w2)"
    by (cases "format_messages c st1 ms") auto
  have "groq_id self2 = groq_id (fst st1) \<and> groq_name self2 = groq_name (fst st1)"
    using format_messages_identity [of c st1 ms] f by simp
  then show ?thesis
    using 1 g f by (simp add: prepare_request_def Let_def)
qed

lemma provider_error_status:
  assumes "e = APIStatusError resp m \<or> e = APIResponseValidationError resp m"
  shows "provider_error self e =
           ModelProviderError \<lparr>message = response_text resp,
             status_code = Some (response_status_code resp),
             model_name = Some (groq_name self), model_id = Some (groq_id self)\<rparr>"
  using assms by (auto simp: provider_error_def)

text \<open>
  C7. When the provider raises a status error or a validation error, each of
  \<^verbatim>\<open>invoke\<close>, \<^verbatim>\<open>ainvoke\<close>, \<^verbatim>\<open>invoke_stream\<close> and \<^verbatim>\<open>ainvoke_stream\<close> raises a
  \<^verbatim>\<open>ModelProviderError\<close> whose status code is the HTTP status of the error's response
  and whose message is the raw body of that response, whatever the two are, together
  with the name and the id of the adapter: for the status 429 and the body
  \<^verbatim>\<open>rate limited\<close>, the status code 429 and the message \<^verbatim>\<open>rate limited\<close>. For the
  first three methods the error is one that the call to the provider raises; for
  \<^verbatim>\<open>ainvoke_stream\<close>, which reads the stream itself, it is one that the call raises or
  one that the stream raises after any number of chunks, and the chunks before it are
  yielded.
\<close>

theorem invoke_status_error:
  assumes "e = APIStatusError resp m \<or> e = APIResponseValidationError resp m"
  shows "(chat_create c (fst (prepare_request c False False st ms)) = Inl e \<longrightarrow>
            fst (invoke c st ms) =
              Inl (ModelProviderError \<lparr>message = response_text resp,
                     status_code = Some (response_status_code resp),
                     model_name = Some (groq_name (fst st)), model_id = Some (groq_id (fst st))\<rparr>))
       \<and> (chat_create c (fst (prepare_request c True False st ms)) = Inl e \<longrightarrow>
            fst (ainvoke c st ms) =
              Inl (ModelProviderError \<lparr>message = response_text resp,
                     status_code = Some (response_status_code resp),
                     model_name = Some (groq_name (fst st)), model_id = Some (groq_id (fst st))\<rparr>))
       \<and> (chat_create_stream c (fst (prepare_request c False True st ms)) = Inl e \<longrightarrow>
            fst (invoke_stream c st ms) =
              Inl (ModelProviderError \<lparr>message = response_text resp,
                     status_code = Some (response_status_code resp),
                     model_name = Some (groq_name (fst st)), model_id = Some (groq_id (fst st))\<rparr>))
       \<and> (chat_create_stream c (fst (prepare_request c True True st ms)) = Inl e \<longrightarrow>
            fst (ainvoke_stream c st ms) =
              Stream [] (Some (ModelProviderError \<lparr>message = response_text resp,
                     status_code = Some (response_status_code resp),
                     model_name = Some (groq_name (fst st)), model_id = Some (groq_id (fst st))\<rparr>)))
       \<and> (chat_create_stream c (fst (prepare_request c True True st ms)) =
              Inr (Stream chunks (Some e)) \<longrightarrow>
            fst (ainvoke_stream c st ms) =
              Stream chunks (Some (ModelProviderError \<lparr>message = response_text resp,
                     status_code = Some (response_status_code resp),
                     model_name = Some (groq_name (fst st)), model_id = Some (groq_id (fst st))\<rparr>)))"
proof -
  have tr: "provider_error self2 e =
      ModelProviderError \<lparr>message = response_text resp,
         status_code = Some (response_status_code resp),
         model_name = Some (groq_name self2), model_id = Some (groq_id self2)\<rparr>" for self2
    using provider_error_status [OF assms, of self2] by simp
  have fr: "groq_id (fst (snd (snd (prepare_request c a s st ms)))) = groq_id (fst st)"
           "groq_name (fst (snd (snd (prepare_request c a s st ms)))) = groq_name (fst st)" for a s
    using prepare_request_identity [of c a s st ms] by simp_all
  have 1: "chat_create c (fst (prepare_request c False False st ms)) = Inl e \<Longrightarrow>
            fst (invoke c st ms) =
              Inl (ModelProviderError \<lparr>message = response_text resp,
                     status_code = Some (response_status_code resp),
                     model_name = Some (groq_name (fst st)), model_id = Some (groq_id (fst st))\<rparr>)"
    using fr [of False False] by (cases "prepare_request c False False st ms") (simp add: invoke_def tr)
  have 2: "chat_create c (fst (prepare_request c True False st ms)) = Inl e \<Longrightarrow>
            fst (ainvoke c st ms) =
              Inl (ModelProviderError \<lparr>message = response_text resp,
                     status_code = Some (response_status_code resp),
                     model_name = Some (groq_name (fst st)), model_id = Some (groq_id (fst st))\<rparr>)"
    using fr [of True False] by (cases "prepare_request c True False st ms") (simp add: ainvoke_def tr)
  have 3: "chat_create_stream c (fst (prepare_request c False True st ms)) = Inl e \<Longrightarrow>
            fst (invoke_stream c st ms) =
              Inl (ModelProviderError \<lparr>message = response_text resp,
                     status_code = Some (response_status_code resp),
                     model_name = Some (groq_name (fst st)), model_id = Some (groq_id (fst st))\<rparr>)"
    using fr [of False True] by (cases "prepare_request c False True st ms") (simp add: invoke_stream_def tr)
  have 4: "chat_create_stream c (fst (prepare_request c True True st ms)) = Inl e \<Longrightarrow>
            fst (ainvoke_stream c st ms) =
              Stream [] (Some (ModelProviderError \<lparr>message = response_text resp,
                     status_code = Some (response_status_code resp),
                     model_name = Some (groq_name (fst st)), model_id = Some (groq_id (fst st))\<rparr>))"
    using fr [of True True] by (cases "prepare_request c True True st ms") (simp add: ainvoke_stream_def tr)
  have 5: "chat_create_stream c (fst (prepare_request c True True st ms)) =
              Inr (Stream chunks (Some e)) \<Longrightarrow>
            fst (ainvoke_stream c st ms) =
              Stream chunks (Some (ModelProviderError \<lparr>message = response_text resp,
                     status_code = Some (response_status_code resp),
                     model_name = Some (groq_name (fst st)), model_id = Some (groq_id (fst st))\<rparr>))"
    using fr [of True True] by (cases "prepare_request c True True st ms") (simp add: ainvoke_stream_def tr)
  show ?thesis using 1 2 3 4 5 by blast
qed

text \<open>
  An adapter with an API key, against a provider that answers every call with the status
  error 429 \<^verbatim>\<open>rate limited\<close>, and against one whose stream raises that error after two
  chunks.
\<close>

theorem invoke_status_error_witness:
  "(rate_limited = APIStatusError \<lparr>response_status_code = 429, response_text = ''rate limited''\<rparr>
        ''Error code: 429'' \<or>
    rate_limited = APIResponseValidationError
        \<lparr>response_status_code = 429, response_text = ''rate limited''\<rparr> ''Error code: 429'')
   \<and> chat_create failing_provider
        (fst (prepare_request failing_provider False False (keyed_groq, new_world) [system_message]))
       = Inl rate_limited
   \<and> chat_create failing_provider
        (fst (prepare_request failing_provider True False (keyed_groq, new_world) [system_message]))
       = Inl rate_limited
   \<and> chat_create_stream failing_provider
        (fst (prepare_request failing_provider False True (keyed_groq, new_world) [system_message]))
       = Inl rate_limited
   \<and> chat_create_stream failing_provider
        (fst (prepare_request failing_provider True True (keyed_groq, new_world) [system_message]))
       = Inl rate_limited
   \<and> chat_create_stream failing_stream_provider
        (fst (prepare_request failing_stream_provider True True (keyed_groq, new_world)
               [system_message]))
       = Inr (Stream [(), ()] (Some rate_limited))
   \<and> fst (invoke failing_provider (keyed_groq, new_world) [system_message]) =
       Inl (ModelProviderError \<lparr>message = ''rate limited'', status_code = Some 429,
              model_name = Some ''Groq'', model_id = Some ''llama-3.3-70b-versatile''\<rparr>)
   \<and> fst (ainvoke failing_provider (keyed_groq, new_world) [system_message]) =
       Inl (ModelProviderError \<lparr>message = ''rate limited'', status_code = Some 429,
              model_name = Some ''Groq'', model_id = Some ''llama-3.3-70b-versatile''\<rparr>)
   \<and> fst (invoke_stream failing_provider (keyed_groq, new_world) [system_message]) =
       Inl (ModelProviderError \<lparr>message = ''rate limited'', status_code = Some 429,
              model_name = Some ''Groq'', model_id = Some ''llama-3.3-70b-versatile''\<rparr>)
   \<and> fst (ainvoke_stream failing_provider (keyed_groq, new_world) [system_message]) =
       Stream [] (Some (ModelProviderError \<lparr>message = ''rate limited'', status_code = Some 429,
              model_name = Some ''Groq'', model_id = Some ''llama-3.3-70b-versatile''\<rparr>))
   \<and> fst (ainvoke_stream failing_stream_provider (keyed_groq, new_world) [system_message]) =
       Stream [(), ()] (Some (ModelProviderError \<lparr>message = ''rate limited'', status_code = Some 429,
              model_name = Some ''Groq'', model_id = Some ''llama-3.3-70b-versatile''\<rparr>))"
  using invoke_status_error [where e = rate_limited and m = "''Error code: 429''"
      and resp = "\<lparr>response_status_code = 429, response_text = ''rate limited''\<rparr>"
      and c = failing_provider and st = "(keyed_groq, new_world)" and ms = "[system_message]"
      and chunks = "[]"]
    invoke_status_error [where e = rate_limited and m = "''Error code: 429''"
      and resp = "\<lparr>response_status_code = 429, response_text = ''rate limited''\<rparr>"
      and c = failing_stream_provider and st = "(keyed_groq, new_world)"
      and ms = "[system_message]" and chunks = "[(), ()]"]
  by (simp add: rate_limited_def failing_provider_def failing_stream_provider_def
      no_collaborators_def keyed_groq_def default_groq_def)

text \<open>
  \<^verbatim>\<open>invoke_stream\<close> returns the stream that the call returns, unread: whatever that
  stream raises while the caller reads it is raised after the method has returned,
  outside its \<^verbatim>\<open>try\<close>, and reaches the caller as the provider raised it.
\<close>

lemma invoke_stream_returns_stream_unread:
  assumes "chat_create_stream c (fst (prepare_request c False True st ms)) = Inr s"
  shows "fst (invoke_stream c st ms) = Inr s"
  using assms by (cases "prepare_request c False True st ms") (simp add: invoke_stream_def)

section \<open>Clients\<close>

text \<open>
  \<^verbatim>\<open>get_client\<close> stores the client it creates, so a second call returns the same
  client and changes nothing. \<^verbatim>\<open>get_async_client\<close> does not store the client it
  creates: it returns an object that did not exist before the call, and the adapter
  still holds none.
\<close>

lemma get_client_stored:
  "client (fst (snd (get_client c st))) = Some (fst (get_client c st))"
proof (cases st)
  case (Pair self w)
  then show ?thesis
    by (cases "client self") (simp_all add: get_client_def Let_def split: prod.splits option.splits)
qed

lemma get_client_reuses:
  "get_client c (snd (get_client c st)) = (fst (get_client c st), snd (get_client c st))"
proof -
  obtain cl self1 w1 where r: "get_client c st = (cl, self1, w1)" by (cases "get_client c st") auto
  have "client self1 = Some cl" using get_client_stored [of c st] r by simp
  then have "get_client c (self1, w1) = (cl, self1, w1)" by (simp add: get_client_def)
  then show ?thesis using r by simp
qed

lemma get_async_client_fresh:
  assumes "async_client self = None" and "get_async_client c (self, w) = (cl, self1, w1)"
  shows "async_client self1 = None \<and> next_object w \<le> client_object cl \<and>
         client_object cl < next_object w1"
proof -
  obtain params self0 where gp: "get_client_params c self = (params, self0)"
    by (cases "get_client_params c self") auto
  have "async_client self0 = None"
    using get_client_params_frame(6) [of c self] gp assms(1) by simp
  then show ?thesis
    using assms gp
    by (auto simp: get_async_client_def Let_def split: option.splits)
qed

text \<open>
  C8. On an adapter that holds no asynchronous client, two calls of
  \<^verbatim>\<open>get_async_client\<close> return two different client objects, and after the first call
  the adapter still holds none. Two calls of \<^verbatim>\<open>get_client\<close> return the same client.
\<close>

theorem get_async_client_not_cached:
  "client_object (fst (get_async_client c (snd (get_async_client c (self\<lparr>async_client := None\<rparr>, w)))))
     \<noteq> client_object (fst (get_async_client c (self\<lparr>async_client := None\<rparr>, w)))
   \<and> async_client (fst (snd (get_async_client c (self\<lparr>async_client := None\<rparr>, w)))) = None
   \<and> get_client c (snd (get_client c (self, w))) = (fst (get_client c (self, w)), snd (get_client c (self, w)))"
proof -
  let ?self = "self\<lparr>async_client := None\<rparr>"
  obtain cl1 self1 w1 where r1: "get_async_client c (?self, w) = (cl1, self1, w1)"
    by (cases "get_async_client c (?self, w)") auto
  obtain cl2 self2 w2 where r2: "get_async_client c (self1, w1) = (cl2, self2, w2)"
    by (cases "get_async_client c (self1, w1)") auto
  have a: "async_client ?self = None" by simp
  have f1: "async_client self1 = None" "client_object cl1 < next_object w1"
    using get_async_client_fresh [OF a r1] by simp_all
  have f2: "next_object w1 \<le> client_object cl2"
    using get_async_client_fresh [OF f1(1) r2] by simp
  have "client_object cl2 \<noteq> client_object cl1" using f1(2) f2 by simp
  then show ?thesis using r1 r2 f1(1) get_client_reuses [of c "(self, w)"] by simp
qed

section \<open>Audio transcription\<close>

lemma format_audio_missing_file:
  assumes "audio_content a = None" and "audio_url_content a = None"
    and "audio_filepath a = Some p" and "path_node c p = None"
  shows "format_audio_for_message c a = None"
  using assms by (simp add: format_audio_for_message_def)

text \<open>
  C9, as amended. For an \<^verbatim>\<open>Audio\<close> without embedded content and without URL
  content whose file path names nothing in the file system, \<^verbatim>\<open>transcribe_audio\<close>,
  given the audio or a list that starts with it, raises the \<^verbatim>\<open>ValueError\<close>
  \<^verbatim>\<open>Failed to process audio data\<close> and leaves the adapter and the world as they were:
  no client is created and no request is sent.
\<close>

theorem transcribe_audio_missing_file:
  assumes "audio_content a = None" and "audio_url_content a = None"
    and "audio_filepath a = Some p" and "path_node c p = None"
  shows "transcribe_audio c st (SingleAudio a) ff l pr rf t m =
           (Inl (ValueError ''Failed to process audio data''), st)
       \<and> transcribe_audio c st (AudioList (a # rest)) ff l pr rf t m =
           (Inl (ValueError ''Failed to process audio data''), st)"
  using format_audio_missing_file [OF assms]
  by (simp add: transcribe_audio_def resolve_audio_def process_audio_def)

text \<open>The path \<^verbatim>\<open>/tmp/missing.mp3\<close> in an empty file system.\<close>

theorem transcribe_audio_missing_file_witness:
  "audio_content (file_audio ''/tmp/missing.mp3'') = None
   \<and> audio_url_content (file_audio ''/tmp/missing.mp3'') = None
   \<and> audio_filepath (file_audio ''/tmp/missing.mp3'') = Some ''/tmp/missing.mp3''
   \<and> path_node no_collaborators ''/tmp/missing.mp3'' = None
   \<and> transcribe_audio no_collaborators (default_groq, new_world)
        (SingleAudio (file_audio ''/tmp/missing.mp3'')) None None None (Some ''text'') None
        ''whisper-large-v3-turbo''
      = (Inl (ValueError ''Failed to process audio data''), default_groq, new_world)
   \<and> transcribe_audio no_collaborators (default_groq, new_world)
        (AudioList [file_audio ''/tmp/missing.mp3'']) None None None (Some ''text'') None
        ''whisper-large-v3-turbo''
      = (Inl (ValueError ''Failed to process audio data''), default_groq, new_world)"
  using transcribe_audio_missing_file [where a = "file_audio ''/tmp/missing.mp3''"
      and p = "''/tmp/missing.mp3''" and c = no_collaborators and st = "(default_groq, new_world)"
      and rest = "[]" and ff = None and l = None and pr = None and rf = "Some ''text''"
      and t = None and m = "''whisper-large-v3-turbo''"]
  by (simp add: file_audio_def no_collaborators_def)

text \<open>
  C9 as stated fails in the kind of the failure: the exception is a \<^verbatim>\<open>ValueError\<close>,
  not a \<^verbatim>\<open>FileNotFoundError\<close>, and it is the same one that an \<^verbatim>\<open>Audio\<close> without
  any source raises.
\<close>

theorem transcribe_audio_missing_file_counterexample:
  "fst (transcribe_audio no_collaborators (default_groq, new_world)
        (SingleAudio (file_audio ''/tmp/missing.mp3'')) None None None (Some ''text'') None
        ''whisper-large-v3-turbo'') = Inl (ValueError ''Failed to process audio data'')
   \<and> \<not> is_file_not_found (ValueError ''Failed to process audio data'')
   \<and> fst (transcribe_audio no_collaborators (default_groq, new_world)
        (SingleAudio \<lparr>audio_content = None, audio_url = None, audio_url_content = None,
           audio_filepath = None, audio_format = None\<rparr>) None None None (Some ''text'') None
        ''whisper-large-v3-turbo'') = Inl (ValueError ''Failed to process audio data'')"
  by (simp add: transcribe_audio_def resolve_audio_def process_audio_def
      format_audio_for_message_def file_audio_def no_collaborators_def)

end
